theory Spec2Isabelle
  imports Main "HOL-Library.Sublist"
begin

section \<open>Event.h: pointers, callables and the listener record\<close>

text \<open>
  The header declares one class template, \<^verbatim>\<open>Event<Types...>\<close>, and its specialization
  \<^verbatim>\<open>Event<>\<close>. Both own a \<^verbatim>\<open>std::vector<Listener> _listeners\<close>; a \<^verbatim>\<open>Listener\<close> holds two
  \<^verbatim>\<open>void*\<close> used only for comparison and a \<^verbatim>\<open>std::function\<close> that is called by \<^verbatim>\<open>Trigger\<close>.

  A \<^verbatim>\<open>void*\<close> is an address; only equality is ever used on it.
\<close>

type_synonym ptr = nat

definition nullptr :: ptr where
  "nullptr = 0"

text \<open>
  Calling a function or a method is an effect on the rest of the program, the world \<open>'w\<close>
  (the channel itself is not part of it). A call either returns, or throws an exception
  \<open>'e\<close>; in both cases it leaves the world it has reached so far.
\<close>

datatype ('e, 'w) outcome = Returned 'w | Raised 'e 'w

type_synonym ('e, 'w) call = "'w \<Rightarrow> ('e, 'w) outcome"

text \<open>
  \<^verbatim>\<open>using Callback = std::function<void(Types...)>\<close>; the parameter pack \<^verbatim>\<open>Types...\<close> is the one
  type \<open>'a\<close> of the argument tuple.
\<close>

type_synonym ('a, 'e, 'w) Callback = "'a \<Rightarrow> ('e, 'w) call"

text \<open>
  A function pointer \<^verbatim>\<open>void(*)(Types...)\<close> or \<^verbatim>\<open>void(*)()\<close> is an address together with
  the code that runs when it is called: \<^verbatim>\<open>reinterpret_cast<void*>(function)\<close> is \<open>fn_addr\<close>,
  \<^verbatim>\<open>function(args...)\<close> is \<open>fn_code\<close>.
\<close>

datatype 'f FnPtr = FnPtr (fn_addr: ptr) (fn_code: 'f)

text \<open>
  A pointer to member function \<^verbatim>\<open>void(T::*)(Types...)\<close> or \<^verbatim>\<open>void(T::*)()\<close>. The header reads
  its identity as \<^verbatim>\<open>*reinterpret_cast<void**>(&function)\<close>, the first pointer-sized word of
  the object representation: \<open>method_word\<close>. \<^verbatim>\<open>(instance->*function)(args...)\<close> is
  \<open>method_code\<close> applied to the address of the instance.
\<close>

datatype 'f MethodPtr = MethodPtr (method_word: ptr) (method_code: 'f)

text \<open>\<^verbatim>\<open>struct Listener { void* instancePtr; void* functionPtr; Callback callback; }\<close>\<close>

record 'c Listener =
  instancePtr :: ptr
  functionPtr :: ptr
  callback :: 'c

text \<open>The class: its only data member is \<^verbatim>\<open>std::vector<Listener> _listeners\<close>.\<close>

record 'c Event =
  listeners :: "'c Listener list"

text \<open>A default-constructed \<^verbatim>\<open>Event\<close>: the vector is empty.\<close>

definition Event_new :: "'c Event" where
  "Event_new = \<lparr>listeners = []\<rparr>"

section \<open>The vector operations the header uses\<close>

text \<open>\<^verbatim>\<open>std::vector::push_back\<close>\<close>

definition push_back :: "'x list \<Rightarrow> 'x \<Rightarrow> 'x list" where
  "push_back v x = v @ [x]"

text \<open>
  \<^verbatim>\<open>std::remove_if(v.begin(), v.end(), pred)\<close> is the standard library's, not the header's: by
  its contract it eliminates the elements for which \<open>pred\<close> holds and is stable, so the
  elements for which \<open>pred\<close> is false are moved to the front in the order they had, and
  the returned iterator (here an index) is the end of that range. What stands behind it is
  left over from the moves and unspecified; the header erases it at once.
\<close>

definition remove_if :: "('x \<Rightarrow> bool) \<Rightarrow> 'x list \<Rightarrow> 'x list \<times> nat" where
  "remove_if pred v =
     (let kept = filter (\<lambda>x. \<not> pred x) v
      in (kept @ drop (length kept) v, length kept))"

text \<open>\<^verbatim>\<open>std::vector::erase(first, last)\<close>, the iterators as indices \<open>i\<close> and \<open>j\<close>.\<close>

definition erase :: "'x list \<Rightarrow> nat \<Rightarrow> nat \<Rightarrow> 'x list" where
  "erase v i j = take i v @ drop j v"

text \<open>\<^verbatim>\<open>v.erase(std::remove_if(v.begin(), v.end(), pred), v.end())\<close>\<close>

definition erase_remove_if :: "('x \<Rightarrow> bool) \<Rightarrow> 'x list \<Rightarrow> 'x list" where
  "erase_remove_if pred v =
     (case remove_if pred v of (v', new_end) \<Rightarrow> erase v' new_end (length v'))"

section \<open>\<^verbatim>\<open>Event<Types...>\<close>\<close>

text \<open>\<^verbatim>\<open>void AddListener(void(*function)(Types...))\<close>\<close>

definition AddListener_fn ::
  "('a, 'e, 'w) Callback Event \<Rightarrow> ('a, 'e, 'w) Callback FnPtr \<Rightarrow> ('a, 'e, 'w) Callback Event" where
  "AddListener_fn ev function =
     ev\<lparr>listeners := push_back (listeners ev)
        \<lparr>instancePtr = nullptr, functionPtr = fn_addr function, callback = fn_code function\<rparr>\<rparr>"

text \<open>\<^verbatim>\<open>void AddListener(void(*function)())\<close>: the lambda ignores the arguments.\<close>

definition AddListener_fn0 ::
  "('a, 'e, 'w) Callback Event \<Rightarrow> ('e, 'w) call FnPtr \<Rightarrow> ('a, 'e, 'w) Callback Event" where
  "AddListener_fn0 ev function =
     ev\<lparr>listeners := push_back (listeners ev)
        \<lparr>instancePtr = nullptr, functionPtr = fn_addr function,
         callback = (\<lambda>args. fn_code function)\<rparr>\<rparr>"

text \<open>\<^verbatim>\<open>void RemoveListener(void(*function)(Types...))\<close>\<close>

definition RemoveListener_fn ::
  "('a, 'e, 'w) Callback Event \<Rightarrow> ('a, 'e, 'w) Callback FnPtr \<Rightarrow> ('a, 'e, 'w) Callback Event" where
  "RemoveListener_fn ev function =
     (let fp = fn_addr function
      in ev\<lparr>listeners := erase_remove_if (\<lambda>listener. functionPtr listener = fp) (listeners ev)\<rparr>)"

text \<open>\<^verbatim>\<open>void RemoveListener(void(*function)())\<close>\<close>

definition RemoveListener_fn0 ::
  "('a, 'e, 'w) Callback Event \<Rightarrow> ('e, 'w) call FnPtr \<Rightarrow> ('a, 'e, 'w) Callback Event" where
  "RemoveListener_fn0 ev function =
     (let fp = fn_addr function
      in ev\<lparr>listeners := erase_remove_if (\<lambda>listener. functionPtr listener = fp) (listeners ev)\<rparr>)"

text \<open>\<^verbatim>\<open>template<typename T> void AddListener(T* instance, void(T::* function)(Types...))\<close>\<close>

definition AddListener_method ::
  "('a, 'e, 'w) Callback Event \<Rightarrow> ptr \<Rightarrow> (ptr \<Rightarrow> ('a, 'e, 'w) Callback) MethodPtr
     \<Rightarrow> ('a, 'e, 'w) Callback Event" where
  "AddListener_method ev instance function =
     ev\<lparr>listeners := push_back (listeners ev)
        \<lparr>instancePtr = instance, functionPtr = method_word function,
         callback = (\<lambda>args. method_code function instance args)\<rparr>\<rparr>"

text \<open>\<^verbatim>\<open>template<typename T> void AddListener(T* instance, void(T::* function)())\<close>\<close>

definition AddListener_method0 ::
  "('a, 'e, 'w) Callback Event \<Rightarrow> ptr \<Rightarrow> (ptr \<Rightarrow> ('e, 'w) call) MethodPtr
     \<Rightarrow> ('a, 'e, 'w) Callback Event" where
  "AddListener_method0 ev instance function =
     ev\<lparr>listeners := push_back (listeners ev)
        \<lparr>instancePtr = instance, functionPtr = method_word function,
         callback = (\<lambda>args. method_code function instance)\<rparr>\<rparr>"

text \<open>\<^verbatim>\<open>template<typename T> void RemoveListener(T* instance, void(T::* function)(Types...))\<close>\<close>

definition RemoveListener_method ::
  "('a, 'e, 'w) Callback Event \<Rightarrow> ptr \<Rightarrow> (ptr \<Rightarrow> ('a, 'e, 'w) Callback) MethodPtr
     \<Rightarrow> ('a, 'e, 'w) Callback Event" where
  "RemoveListener_method ev instance function =
     (let fp = method_word function
      in ev\<lparr>listeners := erase_remove_if
           (\<lambda>listener. instancePtr listener = instance \<and> functionPtr listener = fp)
           (listeners ev)\<rparr>)"

text \<open>\<^verbatim>\<open>template<typename T> void RemoveListener(T* instance, void(T::* function)())\<close>\<close>

definition RemoveListener_method0 ::
  "('a, 'e, 'w) Callback Event \<Rightarrow> ptr \<Rightarrow> (ptr \<Rightarrow> ('e, 'w) call) MethodPtr
     \<Rightarrow> ('a, 'e, 'w) Callback Event" where
  "RemoveListener_method0 ev instance function =
     (let fp = method_word function
      in ev\<lparr>listeners := erase_remove_if
           (\<lambda>listener. instancePtr listener = instance \<and> functionPtr listener = fp)
           (listeners ev)\<rparr>)"

text \<open>\<^verbatim>\<open>void RemoveAllListeners()\<close>: \<^verbatim>\<open>_listeners.clear()\<close>\<close>

definition RemoveAllListeners :: "'c Event \<Rightarrow> 'c Event" where
  "RemoveAllListeners ev = ev\<lparr>listeners := []\<rparr>"

text \<open>
  \<^verbatim>\<open>void Trigger(Types... args) const { for (const auto& listener : _listeners)
  listener.callback(args...); }\<close>

  The loop runs over the listeners that are left; an exception thrown by a callback leaves
  the loop and the method. The result is the channel as the call leaves it and the outcome
  for the caller. The callbacks act on the world only: a callback that adds to or removes
  from the channel it is called from invalidates the iterators of the loop, which C++ leaves
  undefined.
\<close>

fun Trigger_loop ::
  "('a, 'e, 'w) Callback Event \<Rightarrow> ('a, 'e, 'w) Callback Listener list \<Rightarrow> 'a \<Rightarrow> 'w
     \<Rightarrow> ('a, 'e, 'w) Callback Event \<times> ('e, 'w) outcome" where
  "Trigger_loop ev [] args w = (ev, Returned w)"
| "Trigger_loop ev (listener # rest) args w =
     (case callback listener args w of
        Raised e w' \<Rightarrow> (ev, Raised e w')
      | Returned w' \<Rightarrow> Trigger_loop ev rest args w')"

definition Trigger ::
  "('a, 'e, 'w) Callback Event \<Rightarrow> 'a \<Rightarrow> 'w
     \<Rightarrow> ('a, 'e, 'w) Callback Event \<times> ('e, 'w) outcome" where
  "Trigger ev args w = Trigger_loop ev (listeners ev) args w"

section \<open>The specialization \<^verbatim>\<open>Event<>\<close>\<close>

text \<open>Its \<^verbatim>\<open>Callback\<close> is \<^verbatim>\<open>std::function<void()>\<close>.\<close>

text \<open>\<^verbatim>\<open>void AddListener(void(*function)())\<close>\<close>

definition Event0_AddListener_fn ::
  "('e, 'w) call Event \<Rightarrow> ('e, 'w) call FnPtr \<Rightarrow> ('e, 'w) call Event" where
  "Event0_AddListener_fn ev function =
     ev\<lparr>listeners := push_back (listeners ev)
        \<lparr>instancePtr = nullptr, functionPtr = fn_addr function, callback = fn_code function\<rparr>\<rparr>"

text \<open>\<^verbatim>\<open>void RemoveListener(void(*function)())\<close>\<close>

definition Event0_RemoveListener_fn ::
  "('e, 'w) call Event \<Rightarrow> ('e, 'w) call FnPtr \<Rightarrow> ('e, 'w) call Event" where
  "Event0_RemoveListener_fn ev function =
     (let fp = fn_addr function
      in ev\<lparr>listeners := erase_remove_if (\<lambda>listener. functionPtr listener = fp) (listeners ev)\<rparr>)"

text \<open>\<^verbatim>\<open>template <typename T> void AddListener(T* instance, void(T::* function)())\<close>\<close>

definition Event0_AddListener_method ::
  "('e, 'w) call Event \<Rightarrow> ptr \<Rightarrow> (ptr \<Rightarrow> ('e, 'w) call) MethodPtr \<Rightarrow> ('e, 'w) call Event" where
  "Event0_AddListener_method ev instance function =
     ev\<lparr>listeners := push_back (listeners ev)
        \<lparr>instancePtr = instance, functionPtr = method_word function,
         callback = method_code function instance\<rparr>\<rparr>"

text \<open>\<^verbatim>\<open>template <typename T> void RemoveListener(T* instance, void(T::* function)())\<close>\<close>

definition Event0_RemoveListener_method ::
  "('e, 'w) call Event \<Rightarrow> ptr \<Rightarrow> (ptr \<Rightarrow> ('e, 'w) call) MethodPtr \<Rightarrow> ('e, 'w) call Event" where
  "Event0_RemoveListener_method ev instance function =
     (let fp = method_word function
      in ev\<lparr>listeners := erase_remove_if
           (\<lambda>listener. instancePtr listener = instance \<and> functionPtr listener = fp)
           (listeners ev)\<rparr>)"

text \<open>\<^verbatim>\<open>void RemoveAllListeners()\<close> of the specialization.\<close>

definition Event0_RemoveAllListeners :: "('e, 'w) call Event \<Rightarrow> ('e, 'w) call Event" where
  "Event0_RemoveAllListeners ev = ev\<lparr>listeners := []\<rparr>"

text \<open>\<^verbatim>\<open>void Trigger() const { for (const auto& l : _listeners) l.callback(); }\<close>\<close>

fun Event0_Trigger_loop ::
  "('e, 'w) call Event \<Rightarrow> ('e, 'w) call Listener list \<Rightarrow> 'w
     \<Rightarrow> ('e, 'w) call Event \<times> ('e, 'w) outcome" where
  "Event0_Trigger_loop ev [] w = (ev, Returned w)"
| "Event0_Trigger_loop ev (l # rest) w =
     (case callback l w of
        Raised e w' \<Rightarrow> (ev, Raised e w')
      | Returned w' \<Rightarrow> Event0_Trigger_loop ev rest w')"

definition Event0_Trigger ::
  "('e, 'w) call Event \<Rightarrow> 'w \<Rightarrow> ('e, 'w) call Event \<times> ('e, 'w) outcome" where
  "Event0_Trigger ev w = Event0_Trigger_loop ev (listeners ev) w"

section \<open>Reference notions for the properties\<close>

text \<open>
  Calls made one after the other, as the statements \<^verbatim>\<open>c1(); c2(); ...\<close> of a caller would
  make them: each call starts in the world the previous one returned, and an exception
  ends the sequence where it is thrown.
\<close>

fun invoke_in_order :: "('e, 'w) call list \<Rightarrow> ('e, 'w) call" where
  "invoke_in_order [] w = Returned w"
| "invoke_in_order (c # cs) w =
     (case c w of Raised e w' \<Rightarrow> Raised e w' | Returned w' \<Rightarrow> invoke_in_order cs w')"

text \<open>The world a call leaves, whether it returned or threw.\<close>

fun world_after :: "('e, 'w) outcome \<Rightarrow> 'w" where
  "world_after (Returned w) = w"
| "world_after (Raised e w) = w"

fun returned :: "('e, 'w) outcome \<Rightarrow> bool" where
  "returned (Returned w) = True"
| "returned (Raised e w) = False"

text \<open>
  One \<^verbatim>\<open>AddListener\<close> call of a client, with the overload that the argument types select.
\<close>

datatype ('a, 'e, 'w) registration =
    Function "('a, 'e, 'w) Callback FnPtr"
  | Function0 "('e, 'w) call FnPtr"
  | Method ptr "(ptr \<Rightarrow> ('a, 'e, 'w) Callback) MethodPtr"
  | Method0 ptr "(ptr \<Rightarrow> ('e, 'w) call) MethodPtr"

fun AddListener_any ::
  "('a, 'e, 'w) Callback Event \<Rightarrow> ('a, 'e, 'w) registration \<Rightarrow> ('a, 'e, 'w) Callback Event" where
  "AddListener_any ev (Function f) = AddListener_fn ev f"
| "AddListener_any ev (Function0 f) = AddListener_fn0 ev f"
| "AddListener_any ev (Method instance m) = AddListener_method ev instance m"
| "AddListener_any ev (Method0 instance m) = AddListener_method0 ev instance m"

text \<open>
  What the client registered, called directly with the arguments \<open>args\<close>: the exact-signature
  callables receive them, the no-argument callables are called with none.
\<close>

fun direct_call :: "'a \<Rightarrow> ('a, 'e, 'w) registration \<Rightarrow> ('e, 'w) call" where
  "direct_call args (Function f) = fn_code f args"
| "direct_call args (Function0 f) = fn_code f"
| "direct_call args (Method instance m) = method_code m instance args"
| "direct_call args (Method0 instance m) = method_code m instance"

text \<open>
  The record that one \<^verbatim>\<open>AddListener\<close> call stores, read off a channel that holds nothing else.
\<close>

definition listener_of :: "('a, 'e, 'w) registration \<Rightarrow> ('a, 'e, 'w) Callback Listener" where
  "listener_of r = hd (listeners (AddListener_any Event_new r))"

text \<open>Any call a client can make that changes the listener sequence.\<close>

datatype ('a, 'e, 'w) operation =
    Add "('a, 'e, 'w) registration"
  | RemoveFn "('a, 'e, 'w) Callback FnPtr"
  | RemoveFn0 "('e, 'w) call FnPtr"
  | RemoveMethod ptr "(ptr \<Rightarrow> ('a, 'e, 'w) Callback) MethodPtr"
  | RemoveMethod0 ptr "(ptr \<Rightarrow> ('e, 'w) call) MethodPtr"
  | RemoveAll

fun perform ::
  "('a, 'e, 'w) Callback Event \<Rightarrow> ('a, 'e, 'w) operation \<Rightarrow> ('a, 'e, 'w) Callback Event" where
  "perform ev (Add r) = AddListener_any ev r"
| "perform ev (RemoveFn f) = RemoveListener_fn ev f"
| "perform ev (RemoveFn0 f) = RemoveListener_fn0 ev f"
| "perform ev (RemoveMethod instance m) = RemoveListener_method ev instance m"
| "perform ev (RemoveMethod0 instance m) = RemoveListener_method0 ev instance m"
| "perform ev RemoveAll = RemoveAllListeners ev"

text \<open>The registrations among a client's calls, in the order they were made.\<close>

fun registrations :: "('a, 'e, 'w) operation list \<Rightarrow> ('a, 'e, 'w) registration list" where
  "registrations [] = []"
| "registrations (Add r # ops) = r # registrations ops"
| "registrations (other # ops) = registrations ops"

section \<open>A client\<close>

text \<open>
  Callables of a client of \<^verbatim>\<open>Event<int>\<close>, for running the operations on concrete input. The
  world is a log: each callable appends its name, the object it was called on (for a method)
  and the argument it received (when it takes one). \<open>Boom\<close> throws after logging.
\<close>

type_synonym log = "(string \<times> ptr option \<times> int option) list"

definition LogA :: "(string, log) call FnPtr" where
  "LogA = FnPtr 4096 (\<lambda>w. Returned (w @ [(''LogA'', None, None)]))"

definition LogB :: "(int, string, log) Callback FnPtr" where
  "LogB = FnPtr 4112 (\<lambda>a w. Returned (w @ [(''LogB'', None, Some a)]))"

definition Boom :: "(int, string, log) Callback FnPtr" where
  "Boom = FnPtr 4128 (\<lambda>a w. Raised ''boom'' (w @ [(''Boom'', None, Some a)]))"

definition OnEvent :: "(ptr \<Rightarrow> (int, string, log) Callback) MethodPtr" where
  "OnEvent = MethodPtr 8192 (\<lambda>this a w. Returned (w @ [(''OnEvent'', Some this, Some a)]))"

definition OnPing :: "(ptr \<Rightarrow> (string, log) call) MethodPtr" where
  "OnPing = MethodPtr 8208 (\<lambda>this w. Returned (w @ [(''OnPing'', Some this, None)]))"

text \<open>Two objects of the client, by their addresses.\<close>

definition obj :: ptr where
  "obj = 256"

definition obj2 :: ptr where
  "obj2 = 512"

section \<open>Facts about the vector operations\<close>

lemma erase_remove_if_filter:
  "erase_remove_if pred v = filter (\<lambda>x. \<not> pred x) v"
  by (simp add: erase_remove_if_def remove_if_def erase_def Let_def)

lemma erase_remove_if_none:
  assumes "\<forall>x \<in> set v. \<not> pred x"
  shows "erase_remove_if pred v = v"
  using assms by (simp add: erase_remove_if_filter)

section \<open>What each operation leaves in the vector\<close>

lemma Event_eqI:
  fixes ev ev' :: "'c Event"
  assumes "listeners ev = listeners ev'"
  shows "ev = ev'"
  using assms by simp

lemma AddListener_any_appends:
  "listeners (AddListener_any ev r) = listeners ev @ [listener_of r]"
  by (cases r)
     (simp_all add: listener_of_def Event_new_def AddListener_fn_def AddListener_fn0_def
        AddListener_method_def AddListener_method0_def push_back_def)

lemma callback_listener_of: "callback (listener_of r) args = direct_call args r"
  by (cases r)
     (simp_all add: listener_of_def Event_new_def AddListener_fn_def AddListener_fn0_def
        AddListener_method_def AddListener_method0_def push_back_def)

lemma listeners_foldl_AddListener_any:
  "listeners (foldl AddListener_any ev regs) = listeners ev @ map listener_of regs"
  by (induction regs arbitrary: ev) (simp_all add: AddListener_any_appends)

lemma listeners_RemoveListener_fn:
  "listeners (RemoveListener_fn ev f)
     = filter (\<lambda>l. functionPtr l \<noteq> fn_addr f) (listeners ev)"
  by (simp add: RemoveListener_fn_def erase_remove_if_filter)

lemma listeners_RemoveListener_fn0:
  "listeners (RemoveListener_fn0 ev f)
     = filter (\<lambda>l. functionPtr l \<noteq> fn_addr f) (listeners ev)"
  by (simp add: RemoveListener_fn0_def erase_remove_if_filter)

lemma listeners_RemoveListener_method:
  "listeners (RemoveListener_method ev owner m)
     = filter (\<lambda>l. \<not> (instancePtr l = owner \<and> functionPtr l = method_word m)) (listeners ev)"
  by (simp add: RemoveListener_method_def erase_remove_if_filter)

lemma listeners_RemoveListener_method0:
  "listeners (RemoveListener_method0 ev owner m)
     = filter (\<lambda>l. \<not> (instancePtr l = owner \<and> functionPtr l = method_word m)) (listeners ev)"
  by (simp add: RemoveListener_method0_def erase_remove_if_filter)

section \<open>Facts about the loop of Trigger\<close>

lemma Trigger_loop_channel: "fst (Trigger_loop ev ls args w) = ev"
  by (induction ls arbitrary: w) (auto split: outcome.splits)

lemma Trigger_loop_outcome:
  "snd (Trigger_loop ev ls args w) = invoke_in_order (map (\<lambda>l. callback l args) ls) w"
  by (induction ls arbitrary: w) (auto split: outcome.splits)

lemma Event0_Trigger_loop_channel: "fst (Event0_Trigger_loop ev ls w) = ev"
  by (induction ls arbitrary: w) (auto split: outcome.splits)

lemma Trigger_channel: "fst (Trigger ev args w) = ev"
  by (simp add: Trigger_def Trigger_loop_channel)

lemma Trigger_outcome:
  "snd (Trigger ev args w) = invoke_in_order (map (\<lambda>l. callback l args) (listeners ev)) w"
  by (simp add: Trigger_def Trigger_loop_outcome)

lemma invoke_in_order_append:
  "invoke_in_order (cs @ ds) w =
     (case invoke_in_order cs w of
        Raised e w' \<Rightarrow> Raised e w'
      | Returned w' \<Rightarrow> invoke_in_order ds w')"
  by (induction cs arbitrary: w) (auto split: outcome.splits)

lemma invoke_in_order_all_return:
  assumes "\<forall>c \<in> set cs. \<forall>w'. returned (c w')"
  shows "invoke_in_order cs w = Returned (foldl (\<lambda>w' c. world_after (c w')) w cs)"
  using assms
proof (induction cs arbitrary: w)
  case Nil
  then show ?case by simp
next
  case (Cons c cs)
  from Cons.prems have "returned (c w)" by simp
  then obtain w1 where w1: "c w = Returned w1" by (cases "c w") simp_all
  with Cons show ?case by simp
qed

lemma invoke_in_order_returned:
  assumes "returned (invoke_in_order cs w)"
  shows "invoke_in_order cs w = Returned (foldl (\<lambda>w' c. world_after (c w')) w cs)"
  using assms
proof (induction cs arbitrary: w)
  case Nil
  then show ?case by simp
next
  case (Cons c cs)
  show ?case
  proof (cases "c w")
    case (Returned w1)
    with Cons show ?thesis by simp
  next
    case (Raised e w1)
    with Cons.prems show ?thesis by simp
  qed
qed

section \<open>The order of the listeners under any calls\<close>

lemma registrations_append:
  "registrations (ops @ ops') = registrations ops @ registrations ops'"
  by (induction ops rule: registrations.induct) simp_all

lemma perform_step_subseq:
  "subseq (listeners (perform ev op)) (listeners ev @ map listener_of (registrations [op]))"
proof (cases op)
  case (Add r)
  then show ?thesis by (simp add: AddListener_any_appends)
next
  case (RemoveFn f)
  then show ?thesis by (simp add: listeners_RemoveListener_fn)
next
  case (RemoveFn0 f)
  then show ?thesis by (simp add: listeners_RemoveListener_fn0)
next
  case (RemoveMethod i m)
  then show ?thesis by (simp add: listeners_RemoveListener_method)
next
  case (RemoveMethod0 i m)
  then show ?thesis by (simp add: listeners_RemoveListener_method0)
next
  case RemoveAll
  then show ?thesis by (simp add: RemoveAllListeners_def)
qed

lemma perform_subseq:
  assumes "subseq (listeners ev) (map listener_of rs)"
  shows "subseq (listeners (perform ev op)) (map listener_of (rs @ registrations [op]))"
proof -
  have "subseq (listeners ev @ map listener_of (registrations [op]))
          (map listener_of rs @ map listener_of (registrations [op]))"
    using assms by (simp add: list_emb_append_mono)
  with perform_step_subseq [of ev op] show ?thesis
    by (auto intro: subseq_order.trans)
qed

lemma foldl_perform_subseq:
  "subseq (listeners (foldl perform Event_new ops)) (map listener_of (registrations ops))"
proof (induction ops rule: rev_induct)
  case Nil
  then show ?case by (simp add: Event_new_def)
next
  case (snoc op ops)
  from perform_subseq [OF snoc.IH, of op] show ?case
    by (simp add: registrations_append)
qed

section \<open>Trigger after registrations\<close>

text \<open>
  C1. After any sequence of \<^verbatim>\<open>AddListener\<close> calls (any mix of the four overloads, on a new
  channel or on one that already holds listeners), \<^verbatim>\<open>Trigger(args)\<close> is the same for its
  caller as calling what was registered directly, one callable after the other in the order
  of registration, each one once: a callable registered through an exact-signature overload
  is called with \<open>args\<close>, one registered through a no-argument overload is called with no
  argument. Calls made one after the other end at a call that throws (C9 is about that
  case). When none of the registered callables throws, \<^verbatim>\<open>Trigger\<close> returns and the world is
  the one that all of them, each applied once in registration order, have produced; and
  whenever \<^verbatim>\<open>Trigger\<close> returns to its caller, that is the world it returns in.
\<close>

theorem Trigger_after_AddListener_calls:
  "snd (Trigger (foldl AddListener_any Event_new regs) args w)
     = invoke_in_order (map (direct_call args) regs) w
   \<and> snd (Trigger (foldl AddListener_any ev regs) args w)
     = invoke_in_order ((\<lambda>w. snd (Trigger ev args w)) # map (direct_call args) regs) w
   \<and> ((\<forall>r \<in> set regs. \<forall>w'. returned (direct_call args r w')) \<longrightarrow>
        snd (Trigger (foldl AddListener_any Event_new regs) args w)
          = Returned (foldl (\<lambda>w' r. world_after (direct_call args r w')) w regs))
   \<and> (returned (snd (Trigger (foldl AddListener_any Event_new regs) args w)) \<longrightarrow>
        snd (Trigger (foldl AddListener_any Event_new regs) args w)
          = Returned (foldl (\<lambda>w' r. world_after (direct_call args r w')) w regs))"
proof (intro conjI impI)
  show eq: "snd (Trigger (foldl AddListener_any Event_new regs) args w)
     = invoke_in_order (map (direct_call args) regs) w"
    by (simp add: Trigger_outcome listeners_foldl_AddListener_any Event_new_def
          callback_listener_of comp_def)
  show "snd (Trigger (foldl AddListener_any ev regs) args w)
     = invoke_in_order ((\<lambda>w. snd (Trigger ev args w)) # map (direct_call args) regs) w"
    by (simp add: Trigger_outcome listeners_foldl_AddListener_any invoke_in_order_append
          callback_listener_of comp_def)
  show "snd (Trigger (foldl AddListener_any Event_new regs) args w)
          = Returned (foldl (\<lambda>w' r. world_after (direct_call args r w')) w regs)"
    if "\<forall>r \<in> set regs. \<forall>w'. returned (direct_call args r w')"
  proof -
    from that have "\<forall>c \<in> set (map (direct_call args) regs). \<forall>w'. returned (c w')"
      by simp
    then have "invoke_in_order (map (direct_call args) regs) w
          = Returned (foldl (\<lambda>w' c. world_after (c w')) w (map (direct_call args) regs))"
      by (rule invoke_in_order_all_return)
    with eq show ?thesis by (simp only: foldl_map)
  qed
  show "snd (Trigger (foldl AddListener_any Event_new regs) args w)
          = Returned (foldl (\<lambda>w' r. world_after (direct_call args r w')) w regs)"
    if "returned (snd (Trigger (foldl AddListener_any Event_new regs) args w))"
  proof -
    from that eq have "returned (invoke_in_order (map (direct_call args) regs) w)"
      by (simp only:)
    then have "invoke_in_order (map (direct_call args) regs) w
          = Returned (foldl (\<lambda>w' c. world_after (c w')) w (map (direct_call args) regs))"
      by (rule invoke_in_order_returned)
    with eq show ?thesis by (simp only: foldl_map)
  qed
qed

text \<open>
  The scenario of the specification: \<open>LogA\<close> (no argument) and \<open>obj.OnEvent(int)\<close> are
  registered; \<^verbatim>\<open>Trigger(42)\<close> calls \<open>LogA()\<close> once and \<open>obj.OnEvent(42)\<close> once, in that order.
\<close>

theorem Trigger_after_AddListener_calls_witness:
  "(\<forall>w'. returned (direct_call 42 (Function0 LogA) w'))
   \<and> (\<forall>w'. returned (direct_call 42 (Method obj OnEvent) w'))
   \<and> snd (Trigger (foldl AddListener_any Event_new [Function0 LogA, Method obj OnEvent]) 42 [])
     = Returned [(''LogA'', None, None), (''OnEvent'', Some obj, Some 42)]"
proof -
  have none_throws:
    "\<forall>r \<in> set [Function0 LogA, Method obj OnEvent]. \<forall>w'. returned (direct_call 42 r w')"
    by (simp add: LogA_def OnEvent_def)
  with Trigger_after_AddListener_calls
    [where regs = "[Function0 LogA, Method obj OnEvent]" and args = 42 and w = "[]"
       and ev = Event_new]
  have "snd (Trigger (foldl AddListener_any Event_new [Function0 LogA, Method obj OnEvent]) 42 [])
     = Returned (foldl (\<lambda>w' r. world_after (direct_call 42 r w')) []
         [Function0 LogA, Method obj OnEvent])"
    by blast
  also have "\<dots> = Returned [(''LogA'', None, None), (''OnEvent'', Some obj, Some 42)]"
    by (simp add: LogA_def OnEvent_def)
  finally show ?thesis
    using none_throws by simp
qed

section \<open>Removal by owner and method\<close>

text \<open>
  C2. \<^verbatim>\<open>RemoveListener(owner, method)\<close>, in either of its two overloads, leaves exactly the
  records that do not have both \<open>instancePtr\<close> equal to \<open>owner\<close> and \<open>functionPtr\<close> equal to
  the identity of \<open>method\<close>, in their order: it removes the records that match both and
  no other. A record \<open>l\<close> with another owner (whatever its method, so also with the same
  method) stays where it was between the survivors before it and those after it, and a
  \<^verbatim>\<open>Trigger\<close> that follows calls the surviving listeners before it, then the callback of
  \<open>l\<close> with the arguments, then the surviving listeners after it.
\<close>

theorem RemoveListener_method_exact:
  assumes "listeners ev = before @ l # after" and "instancePtr l \<noteq> owner"
  shows "listeners (RemoveListener_method ev owner m)
           = filter (\<lambda>x. \<not> (instancePtr x = owner \<and> functionPtr x = method_word m)) (listeners ev)
       \<and> listeners (RemoveListener_method0 ev owner m0)
           = filter (\<lambda>x. \<not> (instancePtr x = owner \<and> functionPtr x = method_word m0)) (listeners ev)
       \<and> listeners (RemoveListener_method ev owner m)
           = listeners (RemoveListener_method (ev\<lparr>listeners := before\<rparr>) owner m)
             @ l # listeners (RemoveListener_method (ev\<lparr>listeners := after\<rparr>) owner m)
       \<and> snd (Trigger (RemoveListener_method ev owner m) args w)
           = invoke_in_order
               [(\<lambda>w. snd (Trigger (RemoveListener_method (ev\<lparr>listeners := before\<rparr>) owner m) args w)),
                callback l args,
                (\<lambda>w. snd (Trigger (RemoveListener_method (ev\<lparr>listeners := after\<rparr>) owner m) args w))] w"
  using assms
  by (auto simp add: listeners_RemoveListener_method listeners_RemoveListener_method0
      Trigger_outcome invoke_in_order_append split: outcome.splits)

text \<open>
  \<open>OnEvent\<close> is registered on \<open>obj\<close> and on \<open>obj2\<close>, then \<open>LogB\<close>. Removing
  \<open>(obj, OnEvent)\<close> leaves the listener of \<open>obj2\<close>, and \<^verbatim>\<open>Trigger(7)\<close> calls
  \<open>obj2.OnEvent(7)\<close> and \<open>LogB(7)\<close>.
\<close>

theorem RemoveListener_method_exact_witness:
  "listeners (foldl AddListener_any Event_new [Method obj OnEvent, Method obj2 OnEvent, Function LogB])
     = [listener_of (Method obj OnEvent)] @ listener_of (Method obj2 OnEvent)
         # [listener_of (Function LogB)]
   \<and> instancePtr (listener_of (Method obj2 OnEvent)) \<noteq> obj
   \<and> listeners (RemoveListener_method
        (foldl AddListener_any Event_new [Method obj OnEvent, Method obj2 OnEvent, Function LogB])
        obj OnEvent)
     = [listener_of (Method obj2 OnEvent), listener_of (Function LogB)]
   \<and> snd (Trigger (RemoveListener_method
        (foldl AddListener_any Event_new [Method obj OnEvent, Method obj2 OnEvent, Function LogB])
        obj OnEvent) 7 [])
     = Returned [(''OnEvent'', Some obj2, Some 7), (''LogB'', None, Some 7)]"
  using RemoveListener_method_exact
    [where ev = "foldl AddListener_any Event_new
         [Method obj OnEvent, Method obj2 OnEvent, Function LogB]"
       and before = "[listener_of (Method obj OnEvent)]"
       and l = "listener_of (Method obj2 OnEvent)"
       and after = "[listener_of (Function LogB)]"
       and owner = obj and m = OnEvent and ?m0.0 = OnPing and args = 7 and w = "[]"]
  by (simp add: listener_of_def Event_new_def AddListener_fn_def AddListener_method_def
      RemoveListener_method_def erase_remove_if_filter push_back_def Trigger_def
      OnEvent_def LogB_def obj_def obj2_def)

section \<open>Duplicate registrations\<close>

text \<open>
  C3. Registering the same owner and method twice appends two records, nothing is
  deduplicated: the sequence is the old one followed by the record twice, and \<^verbatim>\<open>Trigger\<close>
  calls the listeners that were there, then the method on the owner, then the method on the
  owner again. One \<^verbatim>\<open>RemoveListener(owner, method)\<close> after that removes both: what is left is
  what the removal leaves of the old sequence, with no record matching the pair; on a channel
  that held nothing else the channel is empty again and \<^verbatim>\<open>Trigger\<close> calls nothing.
\<close>

theorem duplicate_registrations:
  "listeners (AddListener_method (AddListener_method ev owner m) owner m)
     = listeners ev @ [listener_of (Method owner m), listener_of (Method owner m)]
   \<and> snd (Trigger (AddListener_method (AddListener_method ev owner m) owner m) args w)
       = invoke_in_order
           [(\<lambda>w. snd (Trigger ev args w)), method_code m owner args, method_code m owner args] w
   \<and> listeners (RemoveListener_method
         (AddListener_method (AddListener_method ev owner m) owner m) owner m)
       = listeners (RemoveListener_method ev owner m)
   \<and> (\<forall>l \<in> set (listeners (RemoveListener_method
          (AddListener_method (AddListener_method ev owner m) owner m) owner m)).
        \<not> (instancePtr l = owner \<and> functionPtr l = method_word m))
   \<and> RemoveListener_method
         (AddListener_method (AddListener_method Event_new owner m) owner m) owner m = Event_new
   \<and> Trigger (RemoveListener_method
         (AddListener_method (AddListener_method Event_new owner m) owner m) owner m) args w
       = (Event_new, Returned w)"
proof -
  have add2: "listeners (AddListener_method (AddListener_method ev' owner m) owner m)
     = listeners ev' @ [listener_of (Method owner m), listener_of (Method owner m)]" for ev'
    using AddListener_any_appends [of "AddListener_method ev' owner m" "Method owner m"]
      AddListener_any_appends [of ev' "Method owner m"]
    by simp
  have ids: "instancePtr (listener_of (Method owner m)) = owner"
    "functionPtr (listener_of (Method owner m)) = method_word m"
    by (simp_all add: listener_of_def Event_new_def AddListener_method_def push_back_def)
  have rem: "listeners (RemoveListener_method
         (AddListener_method (AddListener_method ev' owner m) owner m) owner m)
       = listeners (RemoveListener_method ev' owner m)" for ev'
    by (simp add: listeners_RemoveListener_method add2 ids)
  have new: "RemoveListener_method
         (AddListener_method (AddListener_method Event_new owner m) owner m) owner m
       = Event_new"
  proof (rule Event_eqI)
    have "listeners (RemoveListener_method
         (AddListener_method (AddListener_method Event_new owner m) owner m) owner m)
       = listeners (RemoveListener_method Event_new owner m)"
      by (rule rem)
    also have "\<dots> = listeners Event_new"
      by (simp add: listeners_RemoveListener_method Event_new_def)
    finally show "listeners (RemoveListener_method
         (AddListener_method (AddListener_method Event_new owner m) owner m) owner m)
       = listeners Event_new" .
  qed
  have trig: "snd (Trigger (AddListener_method (AddListener_method ev owner m) owner m) args w)
       = invoke_in_order
           [(\<lambda>w. snd (Trigger ev args w)), method_code m owner args, method_code m owner args] w"
    using callback_listener_of [of "Method owner m" args]
    by (simp add: Trigger_outcome add2 invoke_in_order_append split: outcome.splits)
  show ?thesis
    using add2 [of ev] rem [of ev] new trig
    by (simp add: listeners_RemoveListener_method Trigger_def Event_new_def)
qed

text \<open>
  \<open>LogB\<close> is registered, then \<open>(obj, OnEvent)\<close> twice: \<^verbatim>\<open>Trigger(3)\<close> calls \<open>LogB(3)\<close> and
  \<open>obj.OnEvent(3)\<close> twice. After one removal of \<open>(obj, OnEvent)\<close>, \<^verbatim>\<open>Trigger(3)\<close> calls
  \<open>LogB(3)\<close> only.
\<close>

theorem duplicate_registrations_witness:
  "snd (Trigger (AddListener_method (AddListener_method (AddListener_fn Event_new LogB)
          obj OnEvent) obj OnEvent) 3 [])
     = Returned [(''LogB'', None, Some 3), (''OnEvent'', Some obj, Some 3),
                 (''OnEvent'', Some obj, Some 3)]
   \<and> listeners (RemoveListener_method (AddListener_method (AddListener_method
          (AddListener_fn Event_new LogB) obj OnEvent) obj OnEvent) obj OnEvent)
     = [listener_of (Function LogB)]
   \<and> snd (Trigger (RemoveListener_method (AddListener_method (AddListener_method
          (AddListener_fn Event_new LogB) obj OnEvent) obj OnEvent) obj OnEvent) 3 [])
     = Returned [(''LogB'', None, Some 3)]"
  using duplicate_registrations
    [where ev = "AddListener_fn Event_new LogB" and owner = obj and m = OnEvent
       and args = 3 and w = "[]"]
  by (simp add: listener_of_def Event_new_def AddListener_fn_def AddListener_method_def
      RemoveListener_method_def erase_remove_if_filter push_back_def Trigger_def
      OnEvent_def LogB_def obj_def)

section \<open>Removal without a match\<close>

text \<open>
  C4. When no record of the channel matches the identity given (for the two plain-function
  overloads: no \<open>functionPtr\<close> equal to the address of the function; for the two
  owner-and-method overloads: no record with both \<open>instancePtr\<close> equal to the owner and
  \<open>functionPtr\<close> equal to the identity of the method), every \<^verbatim>\<open>RemoveListener\<close> overload of the
  class template and of the specialization \<^verbatim>\<open>Event<>\<close> returns the channel exactly as it was.
  None of them has an error outcome: each is a total function whose only result is the channel.
\<close>

theorem RemoveListener_no_match:
  "((\<forall>l \<in> set (listeners ev). functionPtr l \<noteq> fn_addr f) \<longrightarrow> RemoveListener_fn ev f = ev)
   \<and> ((\<forall>l \<in> set (listeners ev). functionPtr l \<noteq> fn_addr f0) \<longrightarrow> RemoveListener_fn0 ev f0 = ev)
   \<and> ((\<forall>l \<in> set (listeners ev). \<not> (instancePtr l = owner \<and> functionPtr l = method_word m))
        \<longrightarrow> RemoveListener_method ev owner m = ev)
   \<and> ((\<forall>l \<in> set (listeners ev). \<not> (instancePtr l = owner \<and> functionPtr l = method_word m0))
        \<longrightarrow> RemoveListener_method0 ev owner m0 = ev)
   \<and> ((\<forall>l \<in> set (listeners ev0). functionPtr l \<noteq> fn_addr f0) \<longrightarrow>
        Event0_RemoveListener_fn ev0 f0 = ev0)
   \<and> ((\<forall>l \<in> set (listeners ev0). \<not> (instancePtr l = owner \<and> functionPtr l = method_word m0))
        \<longrightarrow> Event0_RemoveListener_method ev0 owner m0 = ev0)"
  by (simp add: RemoveListener_fn_def RemoveListener_fn0_def RemoveListener_method_def
      RemoveListener_method0_def Event0_RemoveListener_fn_def Event0_RemoveListener_method_def
      erase_remove_if_none)

text \<open>
  A channel that holds \<open>LogB\<close> only, and a channel of \<^verbatim>\<open>Event<>\<close> that holds
  \<open>(obj2, OnPing)\<close> only: removing \<open>Boom\<close>, \<open>LogA\<close>, \<open>(obj, OnEvent)\<close> or \<open>(obj, OnPing)\<close>
  changes neither.
\<close>

theorem RemoveListener_no_match_witness:
  "RemoveListener_fn (AddListener_fn Event_new LogB) Boom = AddListener_fn Event_new LogB
   \<and> RemoveListener_fn0 (AddListener_fn Event_new LogB) LogA = AddListener_fn Event_new LogB
   \<and> RemoveListener_method (AddListener_fn Event_new LogB) obj OnEvent
       = AddListener_fn Event_new LogB
   \<and> RemoveListener_method0 (AddListener_fn Event_new LogB) obj OnPing
       = AddListener_fn Event_new LogB
   \<and> Event0_RemoveListener_fn (Event0_AddListener_method Event_new obj2 OnPing) LogA
       = Event0_AddListener_method Event_new obj2 OnPing
   \<and> Event0_RemoveListener_method (Event0_AddListener_method Event_new obj2 OnPing) obj OnPing
       = Event0_AddListener_method Event_new obj2 OnPing"
  using RemoveListener_no_match
    [where ev = "AddListener_fn Event_new LogB" and f = Boom and ?f0.0 = LogA
       and owner = obj and m = OnEvent and ?m0.0 = OnPing
       and ?ev0.0 = "Event0_AddListener_method Event_new obj2 OnPing"]
  by (simp add: AddListener_fn_def Event0_AddListener_method_def Event_new_def push_back_def
      LogA_def LogB_def Boom_def OnEvent_def OnPing_def obj_def obj2_def nullptr_def)

section \<open>Removal of plain functions\<close>

text \<open>
  C5. Both plain-function overloads of \<^verbatim>\<open>RemoveListener\<close> leave exactly the records whose
  \<open>functionPtr\<close> differs from the address of the function, in their order, so no record with
  that \<open>functionPtr\<close> is left. The record that \<^verbatim>\<open>AddListener(function)\<close> appended is removed
  by the matching \<^verbatim>\<open>RemoveListener(function)\<close> for the exact-signature overload and for the
  no-argument overload; and a record appended by one of the two \<^verbatim>\<open>AddListener\<close> overloads is
  removed through the other \<^verbatim>\<open>RemoveListener\<close> overload as well when the addresses are equal:
  both store the address of the function as \<open>functionPtr\<close>.
\<close>

theorem RemoveListener_fn_any_overload:
  "listeners (RemoveListener_fn ev f)
     = filter (\<lambda>l. functionPtr l \<noteq> fn_addr f) (listeners ev)
   \<and> listeners (RemoveListener_fn0 ev f0)
     = filter (\<lambda>l. functionPtr l \<noteq> fn_addr f0) (listeners ev)
   \<and> (\<forall>l \<in> set (listeners (RemoveListener_fn ev f)). functionPtr l \<noteq> fn_addr f)
   \<and> (\<forall>l \<in> set (listeners (RemoveListener_fn0 ev f0)). functionPtr l \<noteq> fn_addr f0)
   \<and> RemoveListener_fn (AddListener_fn ev f) f = RemoveListener_fn ev f
   \<and> RemoveListener_fn0 (AddListener_fn0 ev f0) f0 = RemoveListener_fn0 ev f0
   \<and> (fn_addr f0 = fn_addr f \<longrightarrow>
        RemoveListener_fn (AddListener_fn0 ev f0) f = RemoveListener_fn ev f
        \<and> RemoveListener_fn0 (AddListener_fn ev f) f0 = RemoveListener_fn0 ev f0)"
  by (simp add: RemoveListener_fn_def RemoveListener_fn0_def AddListener_fn_def
      AddListener_fn0_def push_back_def erase_remove_if_filter)

text \<open>
  The scenario of the specification, continued: with \<open>LogA\<close> and \<open>obj.OnEvent\<close> registered,
  \<^verbatim>\<open>RemoveListener(&LogA)\<close> leaves \<open>obj.OnEvent\<close> and \<^verbatim>\<open>Trigger(7)\<close> calls \<open>obj.OnEvent(7)\<close>
  only. The same record is removed through the exact-signature overload, given a pointer
  with the address of \<open>LogA\<close>.
\<close>

theorem RemoveListener_fn_any_overload_witness:
  "fn_addr LogA = fn_addr (FnPtr 4096 (\<lambda>(a::int). fn_code LogA))
   \<and> listeners (RemoveListener_fn0
        (AddListener_method (AddListener_fn0 Event_new LogA) obj OnEvent) LogA)
     = [listener_of (Method obj OnEvent)]
   \<and> snd (Trigger (RemoveListener_fn0
        (AddListener_method (AddListener_fn0 Event_new LogA) obj OnEvent) LogA) 7 [])
     = Returned [(''OnEvent'', Some obj, Some 7)]
   \<and> RemoveListener_fn (AddListener_fn0 (AddListener_method Event_new obj OnEvent) LogA)
        (FnPtr 4096 (\<lambda>(a::int). fn_code LogA))
     = AddListener_method Event_new obj OnEvent"
  using RemoveListener_fn_any_overload
    [where ev = "AddListener_method Event_new obj OnEvent" and ?f0.0 = LogA
       and f = "FnPtr 4096 (\<lambda>(a::int). fn_code LogA)"]
  by (simp add: listener_of_def Event_new_def AddListener_fn0_def AddListener_method_def
      RemoveListener_fn_def RemoveListener_fn0_def erase_remove_if_filter push_back_def
      Trigger_def LogA_def OnEvent_def obj_def nullptr_def)

section \<open>Registration order\<close>

text \<open>
  C6. Every \<^verbatim>\<open>AddListener\<close> overload appends its record at the end of the sequence and leaves
  the records before it as they were. Every \<^verbatim>\<open>RemoveListener\<close> overload leaves the surviving
  records in the order they had. Hence, after any sequence of calls of
  \<^verbatim>\<open>AddListener\<close>, \<^verbatim>\<open>RemoveListener\<close> and \<^verbatim>\<open>RemoveAllListeners\<close> on a new channel, the listener
  sequence is a subsequence of the records of all registrations made, in the order they were
  made: records are only ever dropped, never reordered.
\<close>

theorem listeners_in_registration_order:
  "listeners (AddListener_fn ev f) = listeners ev @ [listener_of (Function f)]
   \<and> listeners (AddListener_fn0 ev f0) = listeners ev @ [listener_of (Function0 f0)]
   \<and> listeners (AddListener_method ev owner m) = listeners ev @ [listener_of (Method owner m)]
   \<and> listeners (AddListener_method0 ev owner m0) = listeners ev @ [listener_of (Method0 owner m0)]
   \<and> listeners (RemoveListener_fn ev f)
        = filter (\<lambda>l. functionPtr l \<noteq> fn_addr f) (listeners ev)
   \<and> listeners (RemoveListener_fn0 ev f0)
        = filter (\<lambda>l. functionPtr l \<noteq> fn_addr f0) (listeners ev)
   \<and> listeners (RemoveListener_method ev owner m)
        = filter (\<lambda>l. \<not> (instancePtr l = owner \<and> functionPtr l = method_word m)) (listeners ev)
   \<and> listeners (RemoveListener_method0 ev owner m0)
        = filter (\<lambda>l. \<not> (instancePtr l = owner \<and> functionPtr l = method_word m0)) (listeners ev)
   \<and> subseq (listeners (foldl perform Event_new ops)) (map listener_of (registrations ops))"
  using AddListener_any_appends [of ev "Function f"] AddListener_any_appends [of ev "Function0 f0"]
    AddListener_any_appends [of ev "Method owner m"] AddListener_any_appends [of ev "Method0 owner m0"]
  by (simp add: listeners_RemoveListener_fn listeners_RemoveListener_fn0
      listeners_RemoveListener_method listeners_RemoveListener_method0 foldl_perform_subseq)

text \<open>
  A run: \<open>LogA\<close>, \<open>obj.OnEvent\<close> and \<open>LogB\<close> are registered, \<open>LogA\<close> is removed and then
  registered again. The channel holds \<open>obj.OnEvent\<close>, \<open>LogB\<close>, \<open>LogA\<close>, in this order.
\<close>

theorem listeners_in_registration_order_witness:
  "listeners (foldl perform Event_new
      [Add (Function0 LogA), Add (Method obj OnEvent), Add (Function LogB), RemoveFn0 LogA,
       Add (Function0 LogA)])
     = [listener_of (Method obj OnEvent), listener_of (Function LogB), listener_of (Function0 LogA)]
   \<and> subseq
       [listener_of (Method obj OnEvent), listener_of (Function LogB), listener_of (Function0 LogA)]
       (map listener_of [Function0 LogA, Method obj OnEvent, Function LogB, Function0 LogA])"
proof -
  have run: "listeners (foldl perform Event_new
      [Add (Function0 LogA), Add (Method obj OnEvent), Add (Function LogB), RemoveFn0 LogA,
       Add (Function0 LogA)])
     = [listener_of (Method obj OnEvent), listener_of (Function LogB), listener_of (Function0 LogA)]"
    by (simp add: listener_of_def Event_new_def AddListener_fn_def AddListener_fn0_def
      AddListener_method_def RemoveListener_fn0_def erase_remove_if_filter push_back_def
      LogA_def LogB_def OnEvent_def obj_def nullptr_def)
  from listeners_in_registration_order
    [where ops = "[Add (Function0 LogA), Add (Method obj OnEvent), Add (Function LogB),
       RemoveFn0 LogA, Add (Function0 LogA)]"]
  have "subseq (listeners (foldl perform Event_new
      [Add (Function0 LogA), Add (Method obj OnEvent), Add (Function LogB), RemoveFn0 LogA,
       Add (Function0 LogA)]))
     (map listener_of (registrations [Add (Function0 LogA), Add (Method obj OnEvent),
       Add (Function LogB), RemoveFn0 LogA, Add (Function0 LogA)]))"
    by blast
  with run show ?thesis by simp
qed

section \<open>RemoveAllListeners\<close>

text \<open>
  C7. \<^verbatim>\<open>RemoveAllListeners()\<close> empties the listener sequence whatever it held, calling it
  twice is the same as calling it once, and a \<^verbatim>\<open>Trigger\<close> that follows it invokes no
  listener: it returns to the caller with the world untouched, whatever the callbacks that
  were registered before would have done. The same holds in the specialization \<^verbatim>\<open>Event<>\<close>.
\<close>

theorem RemoveAllListeners_clears:
  "listeners (RemoveAllListeners ev) = []
   \<and> RemoveAllListeners (RemoveAllListeners ev) = RemoveAllListeners ev
   \<and> Trigger (RemoveAllListeners ev) args w = (RemoveAllListeners ev, Returned w)
   \<and> listeners (Event0_RemoveAllListeners ev0) = []
   \<and> Event0_RemoveAllListeners (Event0_RemoveAllListeners ev0) = Event0_RemoveAllListeners ev0
   \<and> Event0_Trigger (Event0_RemoveAllListeners ev0) w = (Event0_RemoveAllListeners ev0, Returned w)"
  by (simp add: RemoveAllListeners_def Trigger_def Event0_RemoveAllListeners_def Event0_Trigger_def)

text \<open>
  The scenario of the specification for \<^verbatim>\<open>Event<>\<close>, with \<open>LogA\<close> and \<open>obj.OnPing\<close>
  registered: \<^verbatim>\<open>Trigger()\<close> calls \<open>LogA()\<close>, then \<open>obj.OnPing()\<close>; after
  \<^verbatim>\<open>RemoveAllListeners()\<close> it calls neither.
\<close>

theorem RemoveAllListeners_clears_witness:
  "snd (Event0_Trigger
      (Event0_AddListener_method (Event0_AddListener_fn Event_new LogA) obj OnPing) [])
     = Returned [(''LogA'', None, None), (''OnPing'', Some obj, None)]
   \<and> Event0_Trigger (Event0_RemoveAllListeners
        (Event0_AddListener_method (Event0_AddListener_fn Event_new LogA) obj OnPing)) []
     = (Event_new, Returned [])
   \<and> Trigger (RemoveAllListeners (AddListener_fn Event_new Boom)) 1 []
     = (Event_new, Returned [])"
  using RemoveAllListeners_clears
    [where ?ev0.0 = "Event0_AddListener_method (Event0_AddListener_fn Event_new LogA) obj OnPing"
       and ev = "AddListener_fn Event_new Boom" and args = 1 and w = "[]"]
  by (simp add: Event0_AddListener_fn_def Event0_AddListener_method_def AddListener_fn_def
      Event0_RemoveAllListeners_def RemoveAllListeners_def Event0_Trigger_def Trigger_def
      Event_new_def push_back_def LogA_def OnPing_def)

section \<open>Trigger and the listener sequence\<close>

text \<open>
  C8. \<^verbatim>\<open>Trigger\<close> is a \<^verbatim>\<open>const\<close> member function and its loop only reads \<^verbatim>\<open>_listeners\<close>: for every
  channel, arguments and world, and whether the call returns or a callback throws, the
  channel that \<^verbatim>\<open>Trigger\<close> leaves is the channel it was called on, so the sequence of listener
  records is the same before and after. (The callbacks of this model act on the world only;
  a callback that changes the channel it is called from is undefined behaviour in C++ and
  has no counterpart here.) The same holds for \<^verbatim>\<open>Trigger()\<close> of \<^verbatim>\<open>Event<>\<close>.
\<close>

theorem Trigger_leaves_listeners:
  "fst (Trigger ev args w) = ev
   \<and> listeners (fst (Trigger ev args w)) = listeners ev
   \<and> fst (Event0_Trigger ev0 w) = ev0
   \<and> listeners (fst (Event0_Trigger ev0 w)) = listeners ev0"
  by (simp add: Trigger_channel Event0_Trigger_def Event0_Trigger_loop_channel)

section \<open>A callback that throws\<close>

text \<open>
  C9. Let the listeners before position \<open>k\<close> (counted from 0 in registration order) return,
  leaving the world \<open>wk\<close>, and let the callback of the listener at position \<open>k\<close> throw \<open>e\<close>
  there, leaving the world \<open>w'\<close>. Then \<^verbatim>\<open>Trigger\<close> ends with that same exception \<open>e\<close> for its
  caller, in that same world \<open>w'\<close>, with the channel unchanged: nothing is caught, replaced or
  recorded by the channel. No listener after position \<open>k\<close> is called: the outcome is the same
  whatever listeners stand after position \<open>k\<close>.
\<close>

theorem Trigger_fault_propagates:
  assumes "k < length (listeners ev)"
    and "snd (Trigger (ev\<lparr>listeners := take k (listeners ev)\<rparr>) args w) = Returned wk"
    and "callback (listeners ev ! k) args wk = Raised e w'"
  shows "Trigger ev args w = (ev, Raised e w')
       \<and> (\<forall>later. snd (Trigger (ev\<lparr>listeners := take (Suc k) (listeners ev) @ later\<rparr>) args w)
            = Raised e w')"
proof -
  have split: "listeners ev = take k (listeners ev) @ (listeners ev ! k) # drop (Suc k) (listeners ev)"
    using assms(1) by (rule id_take_nth_drop)
  have pre: "invoke_in_order (map (\<lambda>l. callback l args) (take k (listeners ev))) w = Returned wk"
    using assms(2) by (simp add: Trigger_outcome)
  have "snd (Trigger ev args w) = Raised e w'"
  proof -
    have "snd (Trigger ev args w)
        = invoke_in_order (map (\<lambda>l. callback l args)
            (take k (listeners ev) @ (listeners ev ! k) # drop (Suc k) (listeners ev))) w"
      using split by (simp add: Trigger_outcome)
    also have "\<dots> = Raised e w'"
      using pre assms(3) by (simp add: invoke_in_order_append)
    finally show ?thesis .
  qed
  then have one: "Trigger ev args w = (ev, Raised e w')"
    using Trigger_channel [of ev args w] by (cases "Trigger ev args w") simp
  have two: "snd (Trigger (ev\<lparr>listeners := take (Suc k) (listeners ev) @ later\<rparr>) args w)
            = Raised e w'" for later
    using pre assms(1,3)
    by (simp add: Trigger_outcome take_Suc_conv_app_nth invoke_in_order_append)
  from one two show ?thesis by simp
qed

text \<open>
  \<open>LogB\<close>, \<open>Boom\<close> and \<open>LogA\<close> are registered in this order. \<^verbatim>\<open>Trigger(5)\<close> calls \<open>LogB(5)\<close>,
  then \<open>Boom(5)\<close>, which throws: the caller gets that exception, and \<open>LogA\<close> has not run.
\<close>

theorem Trigger_fault_propagates_witness:
  "Suc 0 < length (listeners (foldl AddListener_any Event_new
       [Function LogB, Function Boom, Function0 LogA]))
   \<and> snd (Trigger ((foldl AddListener_any Event_new [Function LogB, Function Boom, Function0 LogA])
       \<lparr>listeners := take (Suc 0) (listeners (foldl AddListener_any Event_new
           [Function LogB, Function Boom, Function0 LogA]))\<rparr>) 5 [])
     = Returned [(''LogB'', None, Some 5)]
   \<and> callback (listeners (foldl AddListener_any Event_new
       [Function LogB, Function Boom, Function0 LogA]) ! Suc 0) 5 [(''LogB'', None, Some 5)]
     = Raised ''boom'' [(''LogB'', None, Some 5), (''Boom'', None, Some 5)]
   \<and> Trigger (foldl AddListener_any Event_new [Function LogB, Function Boom, Function0 LogA]) 5 []
     = (foldl AddListener_any Event_new [Function LogB, Function Boom, Function0 LogA],
        Raised ''boom'' [(''LogB'', None, Some 5), (''Boom'', None, Some 5)])"
  using Trigger_fault_propagates
    [where ev = "foldl AddListener_any Event_new [Function LogB, Function Boom, Function0 LogA]"
       and k = "Suc 0" and args = 5 and w = "[]" and wk = "[(''LogB'', None, Some 5)]"
       and e = "''boom''" and w' = "[(''LogB'', None, Some 5), (''Boom'', None, Some 5)]"]
  by (simp add: Event_new_def AddListener_fn_def AddListener_fn0_def push_back_def Trigger_def
      LogA_def LogB_def Boom_def)

section \<open>Plain-function removal and owners\<close>

text \<open>
  C10. The two plain-function overloads of \<^verbatim>\<open>RemoveListener\<close> decide on \<open>functionPtr\<close> alone
  and never read \<open>instancePtr\<close>: what they leave is exactly the records whose \<open>functionPtr\<close>
  differs from the address of the function. So every record whose \<open>functionPtr\<close> equals that
  address is removed whatever its \<open>instancePtr\<close>, and in particular the record of a method
  listener, registered with any owner, is removed when the identity stored for its method
  equals the address of the function.
\<close>

theorem RemoveListener_fn_ignores_owner:
  "listeners (RemoveListener_fn ev f)
     = filter (\<lambda>l. functionPtr l \<noteq> fn_addr f) (listeners ev)
   \<and> listeners (RemoveListener_fn0 ev f0)
     = filter (\<lambda>l. functionPtr l \<noteq> fn_addr f0) (listeners ev)
   \<and> (method_word m = fn_addr f \<longrightarrow>
        RemoveListener_fn (AddListener_method ev owner m) f = RemoveListener_fn ev f)
   \<and> (method_word m = fn_addr f0 \<longrightarrow>
        RemoveListener_fn0 (AddListener_method ev owner m) f0 = RemoveListener_fn0 ev f0)
   \<and> (\<forall>l \<in> set (listeners ev). functionPtr l = fn_addr f \<longrightarrow>
        l \<notin> set (listeners (RemoveListener_fn ev f)))
   \<and> (\<forall>l \<in> set (listeners ev). functionPtr l = fn_addr f0 \<longrightarrow>
        l \<notin> set (listeners (RemoveListener_fn0 ev f0)))"
  by (simp add: RemoveListener_fn_def RemoveListener_fn0_def AddListener_method_def
      push_back_def erase_remove_if_filter)

text \<open>
  A function pointer, of either signature, whose address is the word stored for \<open>OnEvent\<close>:
  removing it empties a channel that holds the method listener \<open>(obj, OnEvent)\<close>, whose
  \<open>instancePtr\<close> is not null.
\<close>

theorem RemoveListener_fn_ignores_owner_witness:
  "method_word OnEvent = fn_addr (FnPtr 8192 (\<lambda>(a::int) (w::log). Returned w :: (string, log) outcome))
   \<and> instancePtr (listener_of (Method obj OnEvent)) \<noteq> nullptr
   \<and> listeners (AddListener_method Event_new obj OnEvent) = [listener_of (Method obj OnEvent)]
   \<and> listeners (RemoveListener_fn (AddListener_method Event_new obj OnEvent)
        (FnPtr 8192 (\<lambda>(a::int) (w::log). Returned w))) = []
   \<and> listeners (RemoveListener_fn0 (AddListener_method Event_new obj OnEvent)
        (FnPtr 8192 (\<lambda>(w::log). Returned w))) = []"
  using RemoveListener_fn_ignores_owner
    [where ev = "Event_new" and m = OnEvent and owner = obj
       and f = "FnPtr 8192 (\<lambda>(a::int) (w::log). Returned w)"
       and ?f0.0 = "FnPtr 8192 (\<lambda>(w::log). Returned w)"]
  by (simp add: listener_of_def Event_new_def AddListener_method_def RemoveListener_fn_def
      RemoveListener_fn0_def erase_remove_if_filter push_back_def OnEvent_def obj_def nullptr_def)

end
